theory Spec2Isabelle
  imports Complex_Main
begin

section \<open>Python values and exceptions\<close>

text \<open>
  The driver \<^verbatim>\<open>pymeasure/instruments/agilent/agilent4156.py\<close> raises Python exceptions.
  Every raise is a value here. A \<^verbatim>\<open>ValueError\<close> carries the place that raised it, since the
  driver uses this one class for a value out of range, a value out of a discrete set, a
  channel that is not a constant source and a mode that is neither V nor I.
\<close>

datatype why =
    Not_in_range          \<comment> \<open>\<^verbatim>\<open>strict_range\<close>\<close>
  | Not_in_set            \<comment> \<open>\<^verbatim>\<open>strict_discrete_set\<close>\<close>
  | Not_constant          \<comment> \<open>\<^verbatim>\<open>'Cannot set constant SMU ... when SMU mode is COMMON, or ...'\<close>\<close>
  | Not_V_or_I            \<comment> \<open>\<^verbatim>\<open>'Channel is not in V or I mode. It might be disabled.'\<close>\<close>
  | Empty_sequence        \<comment> \<open>\<^verbatim>\<open>min([])\<close>\<close>
  | Invalid_literal       \<comment> \<open>\<^verbatim>\<open>int('x')\<close>\<close>
  | Shape_mismatch        \<comment> \<open>numpy and pandas on arrays whose shapes do not fit\<close>

datatype error =
    ValueError why
  | RuntimeError
  | TypeError
  | KeyError
  | IndexError
  | UnboundLocalError
  | AttributeError
  | FileNotFoundError

text \<open>A Python number is an \<^verbatim>\<open>int\<close> or a \<^verbatim>\<open>float\<close>; a float is taken as the real it denotes.\<close>

datatype pynum = PInt int | PFloat real

fun val :: "pynum \<Rightarrow> real" where
  "val (PInt i) = real_of_int i"
| "val (PFloat x) = x"

section \<open>Range validators\<close>

text \<open>
  \<^verbatim>\<open>
  def valid_iv(channel_mode):
      if channel_mode == 'V':   values = [-200, 200]
      elif channel_mode == 'I': values = [-1, 1]
      else: raise ValueError('Channel is not in V or I mode. It might be disabled.')
      return values
  \<close>
  and \<^verbatim>\<open>valid_compliance\<close> with the two modes exchanged.
\<close>

definition valid_iv :: "string \<Rightarrow> error + int list" where
  "valid_iv channel_mode =
     (if channel_mode = ''V'' then Inr [-200, 200]
      else if channel_mode = ''I'' then Inr [-1, 1]
      else Inl (ValueError Not_V_or_I))"

definition valid_compliance :: "string \<Rightarrow> error + int list" where
  "valid_compliance channel_mode =
     (if channel_mode = ''I'' then Inr [-200, 200]
      else if channel_mode = ''V'' then Inr [-1, 1]
      else Inl (ValueError Not_V_or_I))"

section \<open>Python built-ins the driver uses\<close>

text \<open>
  A \<^verbatim>\<open>str\<close> is a list of code points; a \<open>char\<close> stands for a code point below 256.
  \<^verbatim>\<open>str.isalpha\<close> holds of the letters of that range (the Unicode categories L*).
\<close>

definition isalpha :: "char \<Rightarrow> bool" where
  "isalpha c =
     (let n = (of_char c :: nat) in
      (65 \<le> n \<and> n \<le> 90) \<or> (97 \<le> n \<and> n \<le> 122) \<or> n = 170 \<or> n = 181 \<or> n = 186
      \<or> (192 \<le> n \<and> n \<le> 214) \<or> (216 \<le> n \<and> n \<le> 246) \<or> (248 \<le> n \<and> n \<le> 255))"

text \<open>\<^verbatim>\<open>str.upper\<close>, on the ASCII letters (the channel designators are ASCII literals).\<close>

definition upper :: "string \<Rightarrow> string" where
  "upper s =
     map (\<lambda>c. let n = (of_char c :: nat) in
                if 97 \<le> n \<and> n \<le> 122 then char_of (n - 32) else c) s"

text \<open>\<^verbatim>\<open>str(i)\<close> of an \<^verbatim>\<open>int\<close>: its decimal digits, with a minus sign below zero.\<close>

fun digits :: "nat \<Rightarrow> string" where
  "digits n =
     (if n < 10 then [''0123456789'' ! n]
      else digits (n div 10) @ [''0123456789'' ! (n mod 10)])"

declare digits.simps [simp del]

definition str_int :: "int \<Rightarrow> string" where
  "str_int i = (if i < 0 then CHR ''-'' # digits (nat (- i)) else digits (nat i))"

text \<open>
  \<^verbatim>\<open>str(x)\<close> of a number, as an f-string and \<^verbatim>\<open>str.format\<close> insert it. The decimal
  text Python prints for a \<^verbatim>\<open>float\<close> is not modelled: it is the parameter \<open>repr\<close>.
\<close>

fun str_num :: "(real \<Rightarrow> string) \<Rightarrow> pynum \<Rightarrow> string" where
  "str_num repr (PInt i) = str_int i"
| "str_num repr (PFloat x) = repr x"

text \<open>An argument that is a string or a number (\<^verbatim>\<open>period="INF"\<close>, \<^verbatim>\<open>points=100\<close>).\<close>

datatype pyval = Str string | Num pynum

fun str_val :: "(real \<Rightarrow> string) \<Rightarrow> pyval \<Rightarrow> string" where
  "str_val repr (Str s) = s"
| "str_val repr (Num n) = str_num repr n"

text \<open>\<^verbatim>\<open>n * xs\<close> of an \<^verbatim>\<open>int\<close> and a \<^verbatim>\<open>list\<close>: the list repeated \<open>n\<close> times.\<close>

definition py_repeat :: "int \<Rightarrow> 'a list \<Rightarrow> 'a list" where
  "py_repeat n xs = concat (replicate (nat n) xs)"

text \<open>\<^verbatim>\<open>min(xs)\<close> and \<^verbatim>\<open>max(xs)\<close> raise ValueError on an empty list.\<close>

fun py_min :: "int list \<Rightarrow> error + int" where
  "py_min [] = Inl (ValueError Empty_sequence)"
| "py_min (x # xs) = Inr (fold min xs x)"

fun py_max :: "int list \<Rightarrow> error + int" where
  "py_max [] = Inl (ValueError Empty_sequence)"
| "py_max (x # xs) = Inr (fold max xs x)"

text \<open>\<^verbatim>\<open>s.split(',')\<close>: the fields between the separators, at least one.\<close>

fun split :: "char \<Rightarrow> string \<Rightarrow> string list" where
  "split sep [] = [[]]"
| "split sep (c # cs) =
     (if c = sep then [] # split sep cs
      else (case split sep cs of
              [] \<Rightarrow> [[c]]
            | w # ws \<Rightarrow> (c # w) # ws))"







definition sq :: string where
  "sq = [CHR 0x27]"

section \<open>The transport\<close>

text \<open>
  Modelled from the spec: the transport of the base classes \<^verbatim>\<open>Instrument\<close> and
  \<^verbatim>\<open>Channel\<close>, which are not among the files verified here. The spec (section 6) takes
  its four operations as given: \<^verbatim>\<open>write\<close> sends a command text, \<^verbatim>\<open>ask\<close> sends a query and reads the
  reply, \<^verbatim>\<open>values\<close> does so for a sequence of numbers, and \<^verbatim>\<open>check_errors\<close> drains the
  error queue of the instrument. The adapter below records each operation in its trace, in
  order. The replies are a function of the query text: they stand for the settings the
  instrument has while one operation of the driver runs. The pauses (\<^verbatim>\<open>time.sleep\<close>) and
  failures of the link are left out.
\<close>

datatype io = Write string | Ask string | Values string | CheckErrors

record adapter =
  trace :: "io list"
  reply :: "string \<Rightarrow> string"
  reply_values :: "string \<Rightarrow> real list"

definition adapter_write :: "string \<Rightarrow> adapter \<Rightarrow> adapter" where
  "adapter_write command a = a\<lparr>trace := trace a @ [Write command]\<rparr>"

definition ask :: "string \<Rightarrow> adapter \<Rightarrow> string \<times> adapter" where
  "ask command a = (reply a command, a\<lparr>trace := trace a @ [Ask command]\<rparr>)"


definition check_errors :: "adapter \<Rightarrow> adapter" where
  "check_errors a = a\<lparr>trace := trace a @ [CheckErrors]\<rparr>"

text \<open>The command texts written so far (queries and error checks left out).\<close>

fun writes :: "io list \<Rightarrow> string list" where
  "writes [] = []"
| "writes (Write c # es) = c # writes es"
| "writes (e # es) = writes es"

definition written :: "adapter \<Rightarrow> string list" where
  "written a = writes (trace a)"

section \<open>Validators\<close>

text \<open>
  Modelled from the spec: \<^verbatim>\<open>pymeasure.instruments.validators.strict_range\<close>, which the
  driver imports and which is not among the files verified here. The spec (section 7) has a
  value outside the legal range raise a validation error before any command is sent. The
  range of a list of bounds reaches from its least to its greatest element
  (\<^verbatim>\<open>min(values) <= value <= max(values)\<close>), and the value is returned unchanged.
\<close>

definition strict_range :: "pynum \<Rightarrow> int list \<Rightarrow> error + pynum" where
  "strict_range v vs =
     (case py_min vs of
        Inl e \<Rightarrow> Inl e
      | Inr lo \<Rightarrow>
          if real_of_int lo \<le> val v then
            (case py_max vs of
               Inl e \<Rightarrow> Inl e
             | Inr hi \<Rightarrow> if val v \<le> real_of_int hi then Inr v else Inl (ValueError Not_in_range))
          else Inl (ValueError Not_in_range))"

text \<open>
  Modelled from the spec: \<^verbatim>\<open>pymeasure.instruments.validators.strict_discrete_set\<close>, not
  among the files verified here. The spec (sections 4.2 and 7) has a value that is not in
  the legal set raise a validation error (\<^verbatim>\<open>value in values\<close>).
\<close>

definition strict_discrete_set :: "string \<Rightarrow> string list \<Rightarrow> error + string" where
  "strict_discrete_set v vs = (if v \<in> set vs then Inr v else Inl (ValueError Not_in_set))"

section \<open>Signal names\<close>

text \<open>
  \<^verbatim>\<open>
  def check_current_voltage_name(name):
      if (len(name) > 6) or not name[0].isalpha():
          new_name = 'a' + name[:5]
          log.info(f"Renaming {name} to {new_name}...")
          name = new_name
      return name
  \<close>
  The result is the name together with the records handed to the logger. \<^verbatim>\<open>name[0]\<close> is
  read only when the length test is false, and raises IndexError on the empty string.
\<close>

definition renamed :: "string \<Rightarrow> string \<times> string list" where
  "renamed name =
     (let new_name = ''a'' @ take 5 name
      in (new_name, [''Renaming '' @ name @ '' to '' @ new_name @ ''...'']))"

definition check_current_voltage_name :: "string \<Rightarrow> error + string \<times> string list" where
  "check_current_voltage_name name =
     (if length name > 6 then Inr (renamed name)
      else (case name of
              [] \<Rightarrow> Inl IndexError
            | c # _ \<Rightarrow> if \<not> isalpha c then Inr (renamed name) else Inr (name, [])))"

section \<open>Measurement channels\<close>

text \<open>
  A channel object of one of the classes \<^verbatim>\<open>SMU\<close>, \<^verbatim>\<open>VMU\<close>, \<^verbatim>\<open>VSU\<close>. The constructors
  store the designator in upper case as \<^verbatim>\<open>id\<close>; \<^verbatim>\<open>SMU\<close> and \<^verbatim>\<open>VMU\<close> assign
  \<^verbatim>\<open>channel_mode_values\<close>, \<^verbatim>\<open>VSU\<close> does not. Three setters read \<^verbatim>\<open>self.channel\<close>, an
  attribute that no class of the driver assigns: it is a field of its own, \<open>None\<close> when
  the base class \<^verbatim>\<open>Channel\<close> (not among the files verified here) provides none, and a
  parameter of the constructors.
\<close>

datatype kind = SMU | VMU | VSU

record chan =
  kind :: kind
  ch_id :: string
  channel_mode_values :: "string list option"
  channel :: "string option"

definition SMU_init :: "string option \<Rightarrow> string \<Rightarrow> chan" where
  "SMU_init attr ident =
     \<lparr>kind = SMU, ch_id = upper ident,
      channel_mode_values = Some [''V'', ''I'', ''COMM''], channel = attr\<rparr>"

definition VMU_init :: "string option \<Rightarrow> string \<Rightarrow> chan" where
  "VMU_init attr ident =
     \<lparr>kind = VMU, ch_id = upper ident,
      channel_mode_values = Some [''V'', ''DVOL''], channel = attr\<rparr>"

definition VSU_init :: "string option \<Rightarrow> string \<Rightarrow> chan" where
  "VSU_init attr ident =
     \<lparr>kind = VSU, ch_id = upper ident, channel_mode_values = None, channel = attr\<rparr>"

text \<open>
  Modelled from the spec: the getter that \<^verbatim>\<open>Channel.control\<close> (base class, not among the
  files verified here) builds for a property declared with \<^verbatim>\<open>check_get_errors=True\<close>: it
  sends the query, with \<^verbatim>\<open>{ch}\<close> replaced by the designator, drains the error queue and
  returns the reply (spec, section 4.2: attributes backed by textual queries).
\<close>

definition control_get :: "string \<Rightarrow> adapter \<Rightarrow> string \<times> adapter" where
  "control_get query a = (let (r, a1) = ask query a in (r, check_errors a1))"

text \<open>
  Modelled from the spec: the setter that \<^verbatim>\<open>Channel.control\<close> builds for a property
  declared with \<^verbatim>\<open>check_set_errors=True\<close>: the validator runs first and its error leaves
  before any command is sent (spec, section 7); then the command is written and the error
  queue drained.
\<close>

definition control_set ::
  "(string \<Rightarrow> error + string) \<Rightarrow> (string \<Rightarrow> string) \<Rightarrow> string \<Rightarrow> adapter
   \<Rightarrow> (error + unit) \<times> adapter" where
  "control_set validator command v a =
     (case validator v of
        Inl e \<Rightarrow> (Inl e, a)
      | Inr v1 \<Rightarrow> (Inr (), check_errors (adapter_write (command v1) a)))"

text \<open>
  Modelled from the spec: the lookup of a property declared with \<^verbatim>\<open>dynamic=True\<close>, done
  by the base class. Such a property reads its \<^verbatim>\<open>values\<close> from the attribute
  \<^verbatim>\<open>channel_mode_values\<close> of the object when the object has one (spec, section 9: the
  legal mode set is stored per instance), and keeps the declared \<^verbatim>\<open>values=[]\<close> otherwise.
  The declaration in the driver is
  \<^verbatim>\<open>channel_mode = Channel.control(":PAGE:CHAN:{ch}:MODE?", ":PAGE:CHAN:{ch}:MODE %s",
      values=[], validator=strict_discrete_set, ..., dynamic=True)\<close>
\<close>

definition channel_mode :: "chan \<Rightarrow> adapter \<Rightarrow> string \<times> adapter" where
  "channel_mode c a = control_get ('':PAGE:CHAN:'' @ ch_id c @ '':MODE?'') a"

definition channel_mode_set :: "chan \<Rightarrow> string \<Rightarrow> adapter \<Rightarrow> (error + unit) \<times> adapter" where
  "channel_mode_set c v a =
     control_set
       (\<lambda>v. strict_discrete_set v (case channel_mode_values c of None \<Rightarrow> [] | Some vs \<Rightarrow> vs))
       (\<lambda>v. '':PAGE:CHAN:'' @ ch_id c @ '':MODE '' @ v) v a"


definition channel_function_set :: "chan \<Rightarrow> string \<Rightarrow> adapter \<Rightarrow> (error + unit) \<times> adapter" where
  "channel_function_set c v a =
     control_set (\<lambda>v. strict_discrete_set v [''VAR1'', ''VAR2'', ''VARD'', ''CONS''])
       (\<lambda>v. '':PAGE:CHAN:'' @ ch_id c @ '':FUNC '' @ v) v a"

text \<open>
  \<^verbatim>\<open>voltage_name\<close> and \<^verbatim>\<open>current_name\<close>: no validator, no error check,
  \<^verbatim>\<open>set_process=check_current_voltage_name\<close>. The result carries the log records.
\<close>

definition name_set ::
  "string \<Rightarrow> chan \<Rightarrow> string \<Rightarrow> adapter \<Rightarrow> (error + string list) \<times> adapter" where
  "name_set which c name a =
     (case check_current_voltage_name name of
        Inl e \<Rightarrow> (Inl e, a)
      | Inr (n, records) \<Rightarrow>
          (Inr records,
           adapter_write ('':PAGE:CHAN:'' @ ch_id c @ '':'' @ which @ '' '' @ sq @ n @ sq) a))"

definition voltage_name_set :: "chan \<Rightarrow> string \<Rightarrow> adapter \<Rightarrow> (error + string list) \<times> adapter" where
  "voltage_name_set = name_set ''VNAME''"

definition current_name_set :: "chan \<Rightarrow> string \<Rightarrow> adapter \<Rightarrow> (error + string list) \<times> adapter" where
  "current_name_set = name_set ''INAME''"

text \<open>\<^verbatim>\<open>reset_settings\<close>: the channel-disable command, then the error check.\<close>

definition reset_settings :: "chan \<Rightarrow> adapter \<Rightarrow> adapter" where
  "reset_settings c a = check_errors (adapter_write ('':PAGE:CHAN:'' @ ch_id c @ '':DIS'') a)"

section \<open>The operating mode\<close>

text \<open>
  Modelled from the spec: the getter that \<^verbatim>\<open>Instrument.control\<close> (not among the files
  verified here) builds for a property declared with \<^verbatim>\<open>map_values=True\<close>: it returns the
  key whose value in the table is the reply; the spec (section 4.4) has the two states
  SWEEP and SAMPLING. A reply that is no value of the table is a KeyError. The declaration
  in the driver is
  \<^verbatim>\<open>analyzer_mode = Instrument.control(":PAGE:CHAN:MODE?", ":PAGE:CHAN:MODE %s", ...,
      values={'SWEEP': 'SWE', 'SAMPLING': 'SAMP'}, map_values=True, ...)\<close>
\<close>

definition analyzer_mode :: "adapter \<Rightarrow> (error + string) \<times> adapter" where
  "analyzer_mode a =
     (let (r, a1) = control_get '':PAGE:CHAN:MODE?'' a
      in (if r = ''SWE'' then Inr ''SWEEP''
          else if r = ''SAMP'' then Inr ''SAMPLING''
          else Inl KeyError, a1))"

section \<open>Constant sources\<close>







section \<open>Sweep variables\<close>

text \<open>
  A sweep variable (\<^verbatim>\<open>VAR1\<close>, \<^verbatim>\<open>VAR2\<close>, \<^verbatim>\<open>VARD\<close>) is a channel whose \<^verbatim>\<open>id\<close> is its role
  designator. Its mode is looked up on the six channels that can play the role:
  \<^verbatim>\<open>
  @property
  def channel_mode(self):
      channels = ['SMU1', 'SMU2', 'SMU3', 'SMU4', 'VSU1', 'VSU2']
      for ch in channels:
          ch_func = self.ask(f":PAGE:CHAN:{ch}:FUNC?")
          if ch_func == self.id:
              ch_mode = self.ask(f":PAGE:CHAN:{ch}:MODE?")
      return ch_mode
  \<close>
  The loop has no \<^verbatim>\<open>break\<close>. The local variable \<^verbatim>\<open>ch_mode\<close> is unbound (\<open>None\<close>) until a
  channel matches, and returning it unbound raises UnboundLocalError.
\<close>

definition channels :: "string list" where
  "channels = [''SMU1'', ''SMU2'', ''SMU3'', ''SMU4'', ''VSU1'', ''VSU2'']"

definition func_query :: "string \<Rightarrow> string" where
  "func_query ch = '':PAGE:CHAN:'' @ ch @ '':FUNC?''"

definition mode_query :: "string \<Rightarrow> string" where
  "mode_query ch = '':PAGE:CHAN:'' @ ch @ '':MODE?''"

fun scan :: "string \<Rightarrow> string list \<Rightarrow> string option \<Rightarrow> adapter \<Rightarrow> string option \<times> adapter" where
  "scan ident [] ch_mode a = (ch_mode, a)"
| "scan ident (ch # chs) ch_mode a =
     (let (ch_func, a1) = ask (func_query ch) a in
      if ch_func = ident then
        (let (m, a2) = ask (mode_query ch) a1 in scan ident chs (Some m) a2)
      else scan ident chs ch_mode a1)"

definition VARX_channel_mode :: "string \<Rightarrow> adapter \<Rightarrow> (error + string) \<times> adapter" where
  "VARX_channel_mode ident a =
     (case scan ident channels None a of
        (None, a1) \<Rightarrow> (Inl UnboundLocalError, a1)
      | (Some m, a1) \<Rightarrow> (Inr m, a1))"

text \<open>\<^verbatim>\<open>VARD.channel_mode\<close> is the same loop with the literal \<^verbatim>\<open>"VARD"\<close> for the role.\<close>

definition VARD_channel_mode :: "adapter \<Rightarrow> (error + string) \<times> adapter" where
  "VARD_channel_mode a =
     (case scan ''VARD'' channels None a of
        (None, a1) \<Rightarrow> (Inl UnboundLocalError, a1)
      | (Some m, a1) \<Rightarrow> (Inr m, a1))"

text \<open>
  The setters of a sweep variable look the mode up, take the range of that mode and validate
  the value before they write:
  \<^verbatim>\<open>
  @start.setter
  def start(self, value):
      validator = strict_range
      values = valid_iv(self.channel_mode)
      set_value = validator(value, values)
      self.write(f":PAGE:MEAS:{{ch}}:STAR {set_value}")
      self.check_errors()

  @step.setter
  def step(self, value):
      validator = strict_range
      values = 2 * valid_iv(self.channel_mode)
      set_value = validator(value, values)
      self.write(f":PAGE:MEAS:{{ch}}:STEP {set_value}")
      self.check_errors()
  \<close>
  \<^verbatim>\<open>stop\<close> is \<^verbatim>\<open>start\<close> with \<^verbatim>\<open>STOP\<close>, and \<^verbatim>\<open>compliance\<close> is \<^verbatim>\<open>step\<close> with
  \<^verbatim>\<open>valid_compliance\<close> and \<^verbatim>\<open>COMP\<close>. \<open>sweep_set\<close> is their common body, with the mode
  lookup, the range and the command text as arguments.
\<close>

definition sweep_set ::
  "(adapter \<Rightarrow> (error + string) \<times> adapter) \<Rightarrow> (string \<Rightarrow> error + int list) \<Rightarrow> string
   \<Rightarrow> (real \<Rightarrow> string) \<Rightarrow> pynum \<Rightarrow> adapter \<Rightarrow> (error + unit) \<times> adapter" where
  "sweep_set lookup rng command repr v a =
     (case lookup a of
        (Inl e, a1) \<Rightarrow> (Inl e, a1)
      | (Inr mode, a1) \<Rightarrow>
          (case rng mode of
             Inl e \<Rightarrow> (Inl e, a1)
           | Inr vs \<Rightarrow>
               (case strict_range v vs of
                  Inl e \<Rightarrow> (Inl e, a1)
                | Inr set_value \<Rightarrow>
                    (Inr (), check_errors (adapter_write
                       (command @ '' '' @ str_num repr set_value) a1)))))"

definition twice :: "(string \<Rightarrow> error + int list) \<Rightarrow> string \<Rightarrow> error + int list" where
  "twice rng mode = (case rng mode of Inl e \<Rightarrow> Inl e | Inr vs \<Rightarrow> Inr (py_repeat 2 vs))"

definition VARX_start_set ::
  "(real \<Rightarrow> string) \<Rightarrow> string \<Rightarrow> pynum \<Rightarrow> adapter \<Rightarrow> (error + unit) \<times> adapter" where
  "VARX_start_set repr ident =
     sweep_set (VARX_channel_mode ident) valid_iv ('':PAGE:MEAS:'' @ ident @ '':STAR'') repr"

definition VARX_stop_set ::
  "(real \<Rightarrow> string) \<Rightarrow> string \<Rightarrow> pynum \<Rightarrow> adapter \<Rightarrow> (error + unit) \<times> adapter" where
  "VARX_stop_set repr ident =
     sweep_set (VARX_channel_mode ident) valid_iv ('':PAGE:MEAS:'' @ ident @ '':STOP'') repr"

definition VARX_step_set ::
  "(real \<Rightarrow> string) \<Rightarrow> string \<Rightarrow> pynum \<Rightarrow> adapter \<Rightarrow> (error + unit) \<times> adapter" where
  "VARX_step_set repr ident =
     sweep_set (VARX_channel_mode ident) (twice valid_iv)
       ('':PAGE:MEAS:'' @ ident @ '':STEP'') repr"

definition VARX_compliance_set ::
  "(real \<Rightarrow> string) \<Rightarrow> string \<Rightarrow> pynum \<Rightarrow> adapter \<Rightarrow> (error + unit) \<times> adapter" where
  "VARX_compliance_set repr ident =
     sweep_set (VARX_channel_mode ident) (twice valid_compliance)
       ('':PAGE:MEAS:'' @ ident @ '':COMP'') repr"

text \<open>
  \<^verbatim>\<open>VARD.offset\<close> validates against \<^verbatim>\<open>2 * valid_iv(self.channel_mode)\<close> and writes
  \<^verbatim>\<open>:PAGE:MEAS:VARD:OFFSET\<close>; \<^verbatim>\<open>VARD.compliance\<close> validates against
  \<^verbatim>\<open>2 * valid_compliance(self.channel_mode)\<close> and writes \<^verbatim>\<open>:PAGE:MEAS:VARD:COMP\<close>.
\<close>

definition VARD_offset_set ::
  "(real \<Rightarrow> string) \<Rightarrow> pynum \<Rightarrow> adapter \<Rightarrow> (error + unit) \<times> adapter" where
  "VARD_offset_set = sweep_set VARD_channel_mode (twice valid_iv) '':PAGE:MEAS:VARD:OFFSET''"

definition VARD_compliance_set ::
  "(real \<Rightarrow> string) \<Rightarrow> pynum \<Rightarrow> adapter \<Rightarrow> (error + unit) \<times> adapter" where
  "VARD_compliance_set =
     sweep_set VARD_channel_mode (twice valid_compliance) '':PAGE:MEAS:VARD:COMP''"

section \<open>The instrument\<close>

text \<open>
  \<^verbatim>\<open>Agilent4156.__init__\<close> makes the eleven objects. A sweep variable is known by its
  \<^verbatim>\<open>id\<close> (\<^verbatim>\<open>VARX.__init__\<close> stores it in upper case, \<^verbatim>\<open>VARD\<close> as given).
\<close>

datatype obj = Meas chan | Sweep string

record agilent4156 =
  smu1 :: chan
  smu2 :: chan
  smu3 :: chan
  smu4 :: chan
  vmu1 :: chan
  vmu2 :: chan
  vsu1 :: chan
  vsu2 :: chan
  var1 :: string
  var2 :: string
  vard :: string

definition Agilent4156_init :: "string option \<Rightarrow> agilent4156" where
  "Agilent4156_init attr =
     \<lparr>smu1 = SMU_init attr ''SMU1'', smu2 = SMU_init attr ''SMU2'',
      smu3 = SMU_init attr ''SMU3'', smu4 = SMU_init attr ''SMU4'',
      vmu1 = VMU_init attr ''VMU1'', vmu2 = VMU_init attr ''VMU2'',
      vsu1 = VSU_init attr ''VSU1'', vsu2 = VSU_init attr ''VSU2'',
      var1 = upper ''VAR1'', var2 = upper ''VAR2'', vard = ''VARD''\<rparr>"

text \<open>
  \<^verbatim>\<open>
  def measure(self, period="INF", points=100):
      if self.analyzer_mode == "SWEEP":
          self.write(":PAGE:SCON:MEAS:SING; *OPC?")
      else:
          self.write(f":PAGE:MEAS:SAMP:PER {period}")
          self.write(f":PAGE:MEAS:SAMP:POIN {points}")
          self.write(":PAGE:SCON:MEAS:SING; *OPC?")
  \<close>
\<close>

definition Agilent4156_measure ::
  "(real \<Rightarrow> string) \<Rightarrow> pyval \<Rightarrow> pyval \<Rightarrow> adapter \<Rightarrow> (error + unit) \<times> adapter" where
  "Agilent4156_measure repr period points a =
     (case analyzer_mode a of
        (Inl e, a1) \<Rightarrow> (Inl e, a1)
      | (Inr m, a1) \<Rightarrow>
          if m = ''SWEEP'' then (Inr (), adapter_write '':PAGE:SCON:MEAS:SING; *OPC?'' a1)
          else
            (let a2 = adapter_write ('':PAGE:MEAS:SAMP:PER '' @ str_val repr period) a1;
                 a3 = adapter_write ('':PAGE:MEAS:SAMP:POIN '' @ str_val repr points) a2
             in (Inr (), adapter_write '':PAGE:SCON:MEAS:SING; *OPC?'' a3)))"

text \<open>
  \<^verbatim>\<open>disable_all\<close> resets the four source-measure and the two voltage-sense channels, in
  this order.
\<close>

definition disable_all :: "agilent4156 \<Rightarrow> adapter \<Rightarrow> adapter" where
  "disable_all inst a =
     fold reset_settings [smu1 inst, smu2 inst, smu3 inst, smu4 inst, vmu1 inst, vmu2 inst] a"

section \<open>Bulk configuration\<close>

text \<open>
  A parsed JSON value. An object lists the items of the Python \<^verbatim>\<open>dict\<close> that
  \<^verbatim>\<open>json.load\<close> returns, in iteration order.
\<close>

datatype json =
    JNull
  | JBool bool
  | JNum pynum
  | JStr string
  | JArr "json list"
  | JObj "(string \<times> json) list"

text \<open>
  What \<^verbatim>\<open>open(config_file)\<close> and \<^verbatim>\<open>json.load(stream)\<close> find: no readable file, a text
  that is not JSON (the JSONDecodeError is caught and printed, and \<^verbatim>\<open>instr_settings\<close>
  stays unbound), or a document.
\<close>

datatype config_file = No_file | Not_json | Document json

text \<open>
  \<^verbatim>\<open>
  obj_dict = {'SMU1': self.smu1, 'SMU2': self.smu2, 'SMU3': self.smu3, 'SMU4': self.smu4,
              'VMU1': self.vmu1, 'VMU2': self.vmu2, 'VSU1': self.vsu1, 'VSU2': self.vsu2,
              'VAR1': self.var1, 'VAR2': self.var2, 'VARD': self.vard}
  \<close>
\<close>

definition obj_dict :: "agilent4156 \<Rightarrow> (string \<times> obj) list" where
  "obj_dict inst =
     [(''SMU1'', Meas (smu1 inst)), (''SMU2'', Meas (smu2 inst)),
      (''SMU3'', Meas (smu3 inst)), (''SMU4'', Meas (smu4 inst)),
      (''VMU1'', Meas (vmu1 inst)), (''VMU2'', Meas (vmu2 inst)),
      (''VSU1'', Meas (vsu1 inst)), (''VSU2'', Meas (vsu2 inst)),
      (''VAR1'', Sweep (var1 inst)), (''VAR2'', Sweep (var2 inst)),
      (''VARD'', Sweep (vard inst))]"

text \<open>\<^verbatim>\<open>d[k] = v\<close> on a \<^verbatim>\<open>dict\<close>: a key it has keeps its place, a new key goes last.\<close>

fun dict_set :: "('k \<times> 'v) list \<Rightarrow> 'k \<Rightarrow> 'v \<Rightarrow> ('k \<times> 'v) list" where
  "dict_set [] k v = [(k, v)]"
| "dict_set ((k', v') # d) k v = (if k' = k then (k, v) # d else (k', v') # dict_set d k v)"

text \<open>
  \<^verbatim>\<open>
  new_settings_dict = {}
  for key, value in instr_settings.items():
      new_settings_dict[obj_dict[key]] = value
  \<close>
  \<^verbatim>\<open>obj_dict[key]\<close> raises KeyError for a key that is no slot name.
\<close>

fun translate ::
  "(string \<times> obj) list \<Rightarrow> (string \<times> json) list \<Rightarrow> (obj \<times> json) list
   \<Rightarrow> error + (obj \<times> json) list" where
  "translate od [] new_settings_dict = Inr new_settings_dict"
| "translate od ((key, v) # items) new_settings_dict =
     (case map_of od key of
        None \<Rightarrow> Inl KeyError
      | Some ob \<Rightarrow> translate od items (dict_set new_settings_dict ob v))"

text \<open>
  \<^verbatim>\<open>
  for obj, setup in new_settings_dict.items():
      for setting, value in setup.items():
          setattr(obj, setting, value)
          time.sleep(0.1)
  \<close>
  \<^verbatim>\<open>setattr\<close> reaches the setter of the property \<^verbatim>\<open>setting\<close> of the class of \<^verbatim>\<open>obj\<close>
  through the attribute protocol of Python. The loops are modelled for any such dispatch:
  it is the argument \<open>setattr\<close>. A \<^verbatim>\<open>setup\<close> that is no object has no \<^verbatim>\<open>items\<close>.
\<close>

type_synonym setter = "obj \<Rightarrow> string \<Rightarrow> json \<Rightarrow> adapter \<Rightarrow> (error + unit) \<times> adapter"

fun apply_setup :: "setter \<Rightarrow> obj \<Rightarrow> (string \<times> json) list \<Rightarrow> adapter \<Rightarrow> (error + unit) \<times> adapter" where
  "apply_setup setattr ob [] a = (Inr (), a)"
| "apply_setup setattr ob ((setting, v) # rest) a =
     (case setattr ob setting v a of
        (Inl e, a1) \<Rightarrow> (Inl e, a1)
      | (Inr u, a1) \<Rightarrow> apply_setup setattr ob rest a1)"

fun apply_settings :: "setter \<Rightarrow> (obj \<times> json) list \<Rightarrow> adapter \<Rightarrow> (error + unit) \<times> adapter" where
  "apply_settings setattr [] a = (Inr (), a)"
| "apply_settings setattr ((ob, JObj setup) # rest) a =
     (case apply_setup setattr ob setup a of
        (Inl e, a1) \<Rightarrow> (Inl e, a1)
      | (Inr u, a1) \<Rightarrow> apply_settings setattr rest a1)"
| "apply_settings setattr ((ob, other) # rest) a = (Inl AttributeError, a)"

text \<open>
  \<^verbatim>\<open>
  def configure(self, config_file):
      self.disable_all()
      obj_dict = {...}
      with open(config_file) as stream:
          try:
              instr_settings = json.load(stream)
          except json.JSONDecodeError as e:
              print(e)
      ... the two loops above ...
  \<close>
\<close>

definition configure ::
  "setter \<Rightarrow> agilent4156 \<Rightarrow> config_file \<Rightarrow> adapter \<Rightarrow> (error + unit) \<times> adapter" where
  "configure setattr inst file a =
     (let a1 = disable_all inst a in
      case file of
        No_file \<Rightarrow> (Inl FileNotFoundError, a1)
      | Not_json \<Rightarrow> (Inl UnboundLocalError, a1)
      | Document (JObj instr_settings) \<Rightarrow>
          (case translate (obj_dict inst) instr_settings [] of
             Inl e \<Rightarrow> (Inl e, a1)
           | Inr new_settings_dict \<Rightarrow> apply_settings setattr new_settings_dict a1)
      | Document other \<Rightarrow> (Inl AttributeError, a1))"

section \<open>Saving variables\<close>

text \<open>
  The argument of \<^verbatim>\<open>save\<close> and \<^verbatim>\<open>save_var\<close>: a list of names, one name, or anything else.
  \<^verbatim>\<open>
  def save(self, trace_list):
      self.write(":PAGE:DISP:MODE LIST")
      if isinstance(trace_list, list):
          if len(trace_list) > 8:
              raise RuntimeError('Maximum of 8 variables allowed')
          else:
              for name in trace_list:
                  self.write(f":PAGE:DISP:LIST \'{name}\'")
      elif isinstance(trace_list, str):
          self.write(f":PAGE:DISP:LIST \'{trace_list}\'")
      else:
          raise TypeError(...)
  \<close>
  \<^verbatim>\<open>save_var\<close> has the limit 2 and the command \<^verbatim>\<open>:PAGE:DISP:DVAR\<close>.
\<close>

datatype trace_arg = Names "string list" | Name string | Other

definition save_with :: "nat \<Rightarrow> string \<Rightarrow> trace_arg \<Rightarrow> adapter \<Rightarrow> (error + unit) \<times> adapter" where
  "save_with limit command trace_list a =
     (let a1 = adapter_write '':PAGE:DISP:MODE LIST'' a in
      case trace_list of
        Names names \<Rightarrow>
          if length names > limit then (Inl RuntimeError, a1)
          else (Inr (), fold (\<lambda>name. adapter_write (command @ '' '' @ sq @ name @ sq)) names a1)
      | Name name \<Rightarrow> (Inr (), adapter_write (command @ '' '' @ sq @ name @ sq) a1)
      | Other \<Rightarrow> (Inl TypeError, a1))"

definition save :: "trace_arg \<Rightarrow> adapter \<Rightarrow> (error + unit) \<times> adapter" where
  "save = save_with 8 '':PAGE:DISP:LIST''"

definition save_var :: "trace_arg \<Rightarrow> adapter \<Rightarrow> (error + unit) \<times> adapter" where
  "save_var = save_with 2 '':PAGE:DISP:DVAR''"

section \<open>Reading the data\<close>









section \<open>Notions used in the statements\<close>

text \<open>
  The channels of a list whose function, as the instrument reports it, is the role
  \<open>ident\<close>; the queries one run of the role lookup sends; and the queries the check of a
  constant source sends before it raises.
\<close>

definition matching :: "(string \<Rightarrow> string) \<Rightarrow> string \<Rightarrow> string list \<Rightarrow> string list" where
  "matching r ident chs = filter (\<lambda>ch. r (func_query ch) = ident) chs"

definition scan_trace :: "(string \<Rightarrow> string) \<Rightarrow> string \<Rightarrow> string list \<Rightarrow> io list" where
  "scan_trace r ident chs =
     concat (map (\<lambda>ch. Ask (func_query ch)
                        # (if r (func_query ch) = ident then [Ask (mode_query ch)] else [])) chs)"

definition gate_queries :: "(string \<Rightarrow> string) \<Rightarrow> string \<Rightarrow> io list" where
  "gate_queries r ch =
     [Ask (mode_query ch), CheckErrors]
     @ (if r (mode_query ch) = ''COMM'' then [] else [Ask (func_query ch), CheckErrors])"

section \<open>Instruments of the examples\<close>

text \<open>
  An instrument that answers the listed queries as given and every other query with the
  empty string, with nothing sent so far.
\<close>

definition instrument :: "(string \<times> string) list \<Rightarrow> adapter" where
  "instrument answers =
     \<lparr>trace = [],
      reply = (\<lambda>q. case map_of answers q of None \<Rightarrow> [] | Some r \<Rightarrow> r),
      reply_values = (\<lambda>q. [])\<rparr>"

definition idle :: adapter where
  "idle = instrument []"

text \<open>SMU1 and SMU2 both have the function VAR1, SMU1 in voltage and SMU2 in current mode.\<close>

definition two_var1 :: adapter where
  "two_var1 = instrument
     [(func_query ''SMU1'', ''VAR1''), (mode_query ''SMU1'', ''V''),
      (func_query ''SMU2'', ''VAR1''), (mode_query ''SMU2'', ''I'')]"

text \<open>SMU1 is the primary sweep variable in voltage mode; the instrument sweeps.\<close>

definition smu1_var1_V :: adapter where
  "smu1_var1_V = instrument
     [(func_query ''SMU1'', ''VAR1''), (mode_query ''SMU1'', ''V''),
      ('':PAGE:CHAN:MODE?'', ''SWE'')]"


text \<open>VSU1 is the primary sweep variable; the instrument sweeps.\<close>

definition vsu1_var1 :: adapter where
  "vsu1_var1 = instrument
     [(func_query ''VSU1'', ''VAR1''), (mode_query ''VSU1'', ''V''),
      ('':PAGE:CHAN:MODE?'', ''SWE'')]"

definition sampling :: adapter where
  "sampling = instrument [('':PAGE:CHAN:MODE?'', ''SAMP'')]"

definition sweeping :: adapter where
  "sweeping = instrument [('':PAGE:CHAN:MODE?'', ''SWE'')]"


text \<open>A setter dispatch that leaves a mark in the trace for every attribute it is given.\<close>

definition marking :: setter where
  "marking ob setting v a = (Inr (), adapter_write (''SET '' @ setting) a)"

section \<open>Properties of the range validators\<close>

text \<open>
  C5. The two range validators are mutually inverse: \<open>valid_iv\<close> at V is
  \<open>valid_compliance\<close> at I (both \<open>[-200, 200]\<close>), \<open>valid_iv\<close> at I is
  \<open>valid_compliance\<close> at V (both \<open>[-1, 1]\<close>), and at any other mode both raise the
  ValueError of a channel that is in neither mode.
\<close>

theorem valid_ranges_inverse:
  "valid_iv ''V'' = Inr [-200, 200] \<and> valid_compliance ''I'' = Inr [-200, 200]
   \<and> valid_iv ''I'' = Inr [-1, 1] \<and> valid_compliance ''V'' = Inr [-1, 1]
   \<and> (\<forall>m. m \<noteq> ''V'' \<and> m \<noteq> ''I'' \<longrightarrow>
          valid_iv m = Inl (ValueError Not_V_or_I)
          \<and> valid_compliance m = Inl (ValueError Not_V_or_I))"
  by (simp add: valid_iv_def valid_compliance_def)

theorem valid_ranges_inverse_witness:
  "''COMM'' \<noteq> ''V'' \<and> ''COMM'' \<noteq> ''I''
   \<and> valid_iv ''COMM'' = Inl (ValueError Not_V_or_I)
   \<and> valid_compliance ''COMM'' = Inl (ValueError Not_V_or_I)
   \<and> valid_iv ''V'' = valid_compliance ''I'' \<and> valid_iv ''I'' = valid_compliance ''V''"
  using valid_ranges_inverse by simp

section \<open>Properties of the transport\<close>

lemma writes_append [simp]: "writes (xs @ ys) = writes xs @ writes ys"
  by (induction xs rule: writes.induct) simp_all

lemma scan_trace_no_writes [simp]: "writes (scan_trace r ident chs) = []"
  by (induction chs) (simp_all add: scan_trace_def)

lemma gate_queries_no_writes [simp]: "writes (gate_queries r ch) = []"
  by (simp add: gate_queries_def)

lemma fold_adapter_write:
  "fold (\<lambda>name. adapter_write (f name)) names a
     = a\<lparr>trace := trace a @ map (\<lambda>name. Write (f name)) names\<rparr>"
  by (induction names arbitrary: a) (simp_all add: adapter_write_def)

section \<open>The role lookup of a sweep variable\<close>

text \<open>
  The loop asks every channel of its list for the function, asks the matching ones for the
  mode as well, and keeps the mode it read last.
\<close>

lemma scan_eq:
  "scan ident chs m a =
     ((case matching (reply a) ident chs of
         [] \<Rightarrow> m
       | c # cs \<Rightarrow> Some (reply a (mode_query (last (c # cs))))),
      a\<lparr>trace := trace a @ scan_trace (reply a) ident chs\<rparr>)"
proof (induction chs arbitrary: m a)
  case Nil
  show ?case by (simp add: matching_def scan_trace_def)
next
  case (Cons ch chs)
  show ?case
    by (simp add: Cons.IH ask_def matching_def scan_trace_def split: list.splits)
qed

lemma channel_mode_unique_match:
  assumes "matching (reply a) ident channels = [ch]"
  shows "fst (VARX_channel_mode ident a) = Inr (reply a (mode_query ch))"
  using assms by (simp add: VARX_channel_mode_def scan_eq)

text \<open>
  C1, as the code has it. For every sweep variable, reading \<open>channel_mode\<close> asks the six
  channels SMU1, SMU2, SMU3, SMU4, VSU1, VSU2 in this order for their function (all six,
  whatever they answer) and returns the mode of the last channel whose function is the role
  designator of the variable; when no channel matches it raises UnboundLocalError, the
  lookup failure of the spec.
\<close>

theorem channel_mode_last_match:
  "VARX_channel_mode ident a =
     ((case matching (reply a) ident channels of
         [] \<Rightarrow> Inl UnboundLocalError
       | c # cs \<Rightarrow> Inr (reply a (mode_query (last (c # cs))))),
      a\<lparr>trace := trace a @ scan_trace (reply a) ident channels\<rparr>)
   \<and> VARD_channel_mode a =
     ((case matching (reply a) ''VARD'' channels of
         [] \<Rightarrow> Inl UnboundLocalError
       | c # cs \<Rightarrow> Inr (reply a (mode_query (last (c # cs))))),
      a\<lparr>trace := trace a @ scan_trace (reply a) ''VARD'' channels\<rparr>)"
  by (simp add: VARX_channel_mode_def VARD_channel_mode_def scan_eq split: list.splits)

text \<open>
  C1, as the claim has it, fails: with SMU1 (mode V) and SMU2 (mode I) both in the role
  VAR1, the first matching channel is SMU1, and the lookup returns I, the mode of SMU2.
\<close>

theorem channel_mode_first_counterexample:
  "find (\<lambda>ch. reply two_var1 (func_query ch) = ''VAR1'') channels = Some ''SMU1''
   \<and> reply two_var1 (mode_query ''SMU1'') = ''V''
   \<and> fst (VARX_channel_mode ''VAR1'' two_var1) = Inr ''I''"
  by (simp add: VARX_channel_mode_def two_var1_def instrument_def channels_def
      func_query_def mode_query_def ask_def)

section \<open>The step of a sweep variable\<close>

text \<open>
  \<^verbatim>\<open>2 * valid_iv(...)\<close> repeats the list of the two bounds; it does not double them. The
  step is therefore validated against the range of \<^verbatim>\<open>start\<close> and \<^verbatim>\<open>stop\<close>.
\<close>

lemma twice_valid_iv:
  "twice valid_iv ''V'' = Inr [-200, 200, -200, 200]
   \<and> twice valid_iv ''I'' = Inr [-1, 1, -1, 1]"
  by (simp add: twice_def valid_iv_def py_repeat_def numeral_2_eq_2)

lemma step_range_voltage:
  assumes "fst (VARX_channel_mode ident a) = Inr ''V''"
  shows "fst (VARX_step_set repr ident v a) = Inr () \<longleftrightarrow> - 200 \<le> val v \<and> val v \<le> 200"
  using assms
  by (auto simp add: VARX_step_set_def sweep_set_def twice_def valid_iv_def strict_range_def
      py_repeat_def numeral_2_eq_2 split: prod.splits sum.splits)

lemma step_range_current:
  assumes "fst (VARX_channel_mode ident a) = Inr ''I''"
  shows "fst (VARX_step_set repr ident v a) = Inr () \<longleftrightarrow> - 1 \<le> val v \<and> val v \<le> 1"
  using assms
  by (auto simp add: VARX_step_set_def sweep_set_def twice_def valid_iv_def strict_range_def
      py_repeat_def numeral_2_eq_2 split: prod.splits sum.splits)

lemma step_accepts_as_start:
  "fst (VARX_step_set repr ident v a) = Inr () \<longleftrightarrow> fst (VARX_start_set repr ident v a) = Inr ()"
  by (auto simp add: VARX_step_set_def VARX_start_set_def sweep_set_def twice_def valid_iv_def
      strict_range_def py_repeat_def numeral_2_eq_2 split: prod.splits sum.splits if_splits)

text \<open>
  C2 asks that a step within \<open>[-400, 400]\<close> be accepted in voltage mode. The code at the
  step 300: SMU1 plays the role VAR1 in voltage mode, the lookup returns V, and the setter
  raises the ValueError of \<open>strict_range\<close>; no command is written.
\<close>

theorem step_300_rejected:
  "VARX_channel_mode ''VAR1'' smu1_var1_V
     = (Inr ''V'', smu1_var1_V\<lparr>trace := scan_trace (reply smu1_var1_V) ''VAR1'' channels\<rparr>)
   \<and> fst (VARX_step_set repr ''VAR1'' (PInt 300) smu1_var1_V) = Inl (ValueError Not_in_range)
   \<and> written (snd (VARX_step_set repr ''VAR1'' (PInt 300) smu1_var1_V)) = []"
  by (simp add: VARX_step_set_def sweep_set_def twice_def valid_iv_def strict_range_def
      py_repeat_def numeral_2_eq_2 VARX_channel_mode_def scan_eq written_def
      smu1_var1_V_def instrument_def channels_def matching_def func_query_def mode_query_def)

section \<open>Constant value and compliance\<close>





section \<open>Setting the mode of a channel\<close>

text \<open>
  C4, as the code has it. Setting the mode of a channel raises the ValueError of
  \<open>strict_discrete_set\<close>, before anything is written, exactly when the value is not in the
  mode list of the channel: V, I, COMM for a source-measure channel, V, DVOL for a
  voltage-sense channel. A voltage-source channel assigns no list, the declared empty list
  stays, and every value is refused. An accepted value is written and the error queue read.
\<close>

theorem channel_mode_set_legal:
  "channel_mode_set (SMU_init attr ident) v a =
     (if v \<in> {''V'', ''I'', ''COMM''}
      then (Inr (), a\<lparr>trace := trace a @
              [Write ('':PAGE:CHAN:'' @ upper ident @ '':MODE '' @ v), CheckErrors]\<rparr>)
      else (Inl (ValueError Not_in_set), a))
   \<and> channel_mode_set (VMU_init attr ident) v a =
     (if v \<in> {''V'', ''DVOL''}
      then (Inr (), a\<lparr>trace := trace a @
              [Write ('':PAGE:CHAN:'' @ upper ident @ '':MODE '' @ v), CheckErrors]\<rparr>)
      else (Inl (ValueError Not_in_set), a))
   \<and> channel_mode_set (VSU_init attr ident) v a = (Inl (ValueError Not_in_set), a)"
  by (simp add: channel_mode_set_def control_set_def strict_discrete_set_def SMU_init_def
      VMU_init_def VSU_init_def check_errors_def adapter_write_def)

text \<open>
  C4, as the claim has it, fails on a voltage source: the mode V is refused on VSU1.
\<close>

theorem vsu_mode_counterexample:
  "channel_mode_set (vsu1 (Agilent4156_init None)) ''V'' vsu1_var1
     = (Inl (ValueError Not_in_set), vsu1_var1)"
  by (simp add: channel_mode_set_def control_set_def strict_discrete_set_def
      Agilent4156_init_def VSU_init_def)

section \<open>Signal names\<close>

lemma isalpha_a: "isalpha CHR ''a''"
  by (simp add: isalpha_def)

text \<open>
  A name that is not empty never fails: it is kept when it has at most 6 characters and
  starts with a letter, and otherwise replaced by \<open>a\<close> and its first 5 characters, with one
  log record. The result has at most 6 characters and starts with a letter.
\<close>

lemma name_nonempty_legal:
  assumes "name \<noteq> []"
  shows "\<exists>n records. check_current_voltage_name name = Inr (n, records)
           \<and> length n \<le> 6 \<and> n \<noteq> [] \<and> isalpha (hd n)
           \<and> (if length name \<le> 6 \<and> isalpha (hd name) then n = name \<and> records = []
               else n = ''a'' @ take 5 name
                    \<and> records = [''Renaming '' @ name @ '' to '' @ n @ ''...''])"
  using assms
  by (cases name) (auto simp add: check_current_voltage_name_def renamed_def isalpha_a)

text \<open>
  C6 asks that the setter never fail. The code at the empty name: the length test is
  false, \<^verbatim>\<open>name[0]\<close> raises IndexError, and both name setters leave with it before they
  write.
\<close>

theorem empty_name_raises:
  "check_current_voltage_name [] = Inl IndexError
   \<and> voltage_name_set c [] a = (Inl IndexError, a)
   \<and> current_name_set c [] a = (Inl IndexError, a)"
  by (simp add: check_current_voltage_name_def voltage_name_set_def current_name_set_def
      name_set_def)

section \<open>Saving variables\<close>

lemma save_with_within_limit:
  assumes "length names \<le> limit"
  shows "save_with limit command (Names names) a =
           (Inr (), a\<lparr>trace := trace a @ Write '':PAGE:DISP:MODE LIST''
                        # map (\<lambda>name. Write (command @ '' '' @ sq @ name @ sq)) names\<rparr>)"
  using assms by (simp add: save_with_def fold_adapter_write adapter_write_def)

lemma save_with_over_limit:
  assumes "length names > limit"
  shows "save_with limit command (Names names) a =
           (Inl RuntimeError, a\<lparr>trace := trace a @ [Write '':PAGE:DISP:MODE LIST'']\<rparr>)"
  using assms by (simp add: save_with_def adapter_write_def)

text \<open>
  C7. \<open>save\<close> with a list of more than 8 names raises RuntimeError, and the write of the
  display mode is all it has sent; with a list of exactly 8 names it writes the display mode
  and then one command for each name, in the order of the list. \<open>save_var\<close> does the same
  with the limit 2 and its own command.
\<close>

theorem save_capacity:
  "(length names > 8 \<longrightarrow>
      save (Names names) a =
        (Inl RuntimeError, a\<lparr>trace := trace a @ [Write '':PAGE:DISP:MODE LIST'']\<rparr>))
   \<and> (length names = 8 \<longrightarrow>
      save (Names names) a =
        (Inr (), a\<lparr>trace := trace a @ Write '':PAGE:DISP:MODE LIST''
                    # map (\<lambda>name. Write ('':PAGE:DISP:LIST '' @ sq @ name @ sq)) names\<rparr>))
   \<and> (length names > 2 \<longrightarrow>
      save_var (Names names) a =
        (Inl RuntimeError, a\<lparr>trace := trace a @ [Write '':PAGE:DISP:MODE LIST'']\<rparr>))
   \<and> (length names = 2 \<longrightarrow>
      save_var (Names names) a =
        (Inr (), a\<lparr>trace := trace a @ Write '':PAGE:DISP:MODE LIST''
                    # map (\<lambda>name. Write ('':PAGE:DISP:DVAR '' @ sq @ name @ sq)) names\<rparr>))"
  by (simp add: save_def save_var_def save_with_within_limit save_with_over_limit)

theorem save_capacity_witness:
  "save (Names [''V1'', ''V2'', ''V3'', ''V4'', ''V5'', ''V6'', ''V7'', ''V8'', ''V9'']) idle
     = (Inl RuntimeError, idle\<lparr>trace := [Write '':PAGE:DISP:MODE LIST'']\<rparr>)
   \<and> written (snd (save (Names [''V1'', ''V2'', ''V3'', ''V4'', ''V5'', ''V6'', ''V7'', ''V8'']) idle))
     = '':PAGE:DISP:MODE LIST''
       # map (\<lambda>name. '':PAGE:DISP:LIST '' @ sq @ name @ sq)
           [''V1'', ''V2'', ''V3'', ''V4'', ''V5'', ''V6'', ''V7'', ''V8'']
   \<and> save_var (Names [''V1'', ''V2'', ''V3'']) idle
     = (Inl RuntimeError, idle\<lparr>trace := [Write '':PAGE:DISP:MODE LIST'']\<rparr>)
   \<and> written (snd (save_var (Names [''V1'', ''V2'']) idle))
     = ['':PAGE:DISP:MODE LIST'', '':PAGE:DISP:DVAR '' @ sq @ ''V1'' @ sq,
        '':PAGE:DISP:DVAR '' @ sq @ ''V2'' @ sq]"
  using save_capacity [of "[''V1'', ''V2'', ''V3'', ''V4'', ''V5'', ''V6'', ''V7'', ''V8'', ''V9'']" idle]
    save_capacity [of "[''V1'', ''V2'', ''V3'', ''V4'', ''V5'', ''V6'', ''V7'', ''V8'']" idle]
    save_capacity [of "[''V1'', ''V2'', ''V3'']" idle]
    save_capacity [of "[''V1'', ''V2'']" idle]
  by (simp add: idle_def instrument_def written_def)

section \<open>Measuring\<close>

text \<open>
  C8. When the instrument reports the sampling mode, \<open>measure\<close> with the period 100 and 50
  points writes exactly three commands after it has read the operating mode: the period,
  the number of points and the single measurement, in this order. When the instrument
  reports the sweep mode, it writes the single measurement only, whatever the arguments.
\<close>

theorem measure_commands:
  "(reply a '':PAGE:CHAN:MODE?'' = ''SAMP'' \<longrightarrow>
      Agilent4156_measure repr (Num (PInt 100)) (Num (PInt 50)) a =
        (Inr (), a\<lparr>trace := trace a @
           [Ask '':PAGE:CHAN:MODE?'', CheckErrors,
            Write '':PAGE:MEAS:SAMP:PER 100'', Write '':PAGE:MEAS:SAMP:POIN 50'',
            Write '':PAGE:SCON:MEAS:SING; *OPC?'']\<rparr>)
      \<and> written (snd (Agilent4156_measure repr (Num (PInt 100)) (Num (PInt 50)) a)) =
          written a @ ['':PAGE:MEAS:SAMP:PER 100'', '':PAGE:MEAS:SAMP:POIN 50'',
                       '':PAGE:SCON:MEAS:SING; *OPC?''])
   \<and> (reply a '':PAGE:CHAN:MODE?'' = ''SWE'' \<longrightarrow>
      Agilent4156_measure repr period points a =
        (Inr (), a\<lparr>trace := trace a @
           [Ask '':PAGE:CHAN:MODE?'', CheckErrors, Write '':PAGE:SCON:MEAS:SING; *OPC?'']\<rparr>)
      \<and> written (snd (Agilent4156_measure repr period points a)) =
          written a @ ['':PAGE:SCON:MEAS:SING; *OPC?''])"
  by (simp add: Agilent4156_measure_def analyzer_mode_def control_get_def ask_def
      check_errors_def adapter_write_def written_def str_int_def digits.simps)

theorem measure_commands_witness:
  "reply sampling '':PAGE:CHAN:MODE?'' = ''SAMP''
   \<and> written (snd (Agilent4156_measure (\<lambda>x. []) (Num (PInt 100)) (Num (PInt 50)) sampling))
       = ['':PAGE:MEAS:SAMP:PER 100'', '':PAGE:MEAS:SAMP:POIN 50'', '':PAGE:SCON:MEAS:SING; *OPC?'']
   \<and> reply sweeping '':PAGE:CHAN:MODE?'' = ''SWE''
   \<and> written (snd (Agilent4156_measure (\<lambda>x. []) (Num (PInt 100)) (Num (PInt 50)) sweeping))
       = ['':PAGE:SCON:MEAS:SING; *OPC?'']"
  using measure_commands [of sampling "\<lambda>x. []" "Num (PInt 100)" "Num (PInt 50)"]
    measure_commands [of sweeping "\<lambda>x. []" "Num (PInt 100)" "Num (PInt 50)"]
  by (simp add: sampling_def sweeping_def instrument_def written_def)

section \<open>Reading the data\<close>




section \<open>Bulk configuration\<close>

lemma translate_unknown:
  assumes "(key, v) \<in> set items" and "map_of od key = None"
  shows "translate od items new_settings_dict = Inl KeyError"
  using assms
  by (induction items arbitrary: new_settings_dict) (auto split: option.splits)

lemma obj_dict_unknown:
  assumes "key \<notin> {''SMU1'', ''SMU2'', ''SMU3'', ''SMU4'', ''VMU1'', ''VMU2'', ''VSU1'', ''VSU2'',
                   ''VAR1'', ''VAR2'', ''VARD''}"
  shows "map_of (obj_dict inst) key = None"
  using assms by (simp add: obj_dict_def)

lemma disable_all_trace:
  "disable_all (Agilent4156_init attr) a =
     a\<lparr>trace := trace a @
        [Write '':PAGE:CHAN:SMU1:DIS'', CheckErrors, Write '':PAGE:CHAN:SMU2:DIS'', CheckErrors,
         Write '':PAGE:CHAN:SMU3:DIS'', CheckErrors, Write '':PAGE:CHAN:SMU4:DIS'', CheckErrors,
         Write '':PAGE:CHAN:VMU1:DIS'', CheckErrors, Write '':PAGE:CHAN:VMU2:DIS'', CheckErrors]\<rparr>"
  by (simp add: disable_all_def reset_settings_def Agilent4156_init_def SMU_init_def VMU_init_def
      upper_def check_errors_def adapter_write_def)

text \<open>
  C10. When the document has a key that is none of the eleven slot names, \<open>configure\<close>
  raises KeyError in the translation of the keys, whatever the setters would do and wherever
  the key stands in the document: the instrument has received the six resets of
  \<open>disable_all\<close> and nothing else, so no attribute of the document has been applied.
\<close>

theorem configure_unknown_slot:
  assumes "(key, v) \<in> set doc"
    and "key \<notin> {''SMU1'', ''SMU2'', ''SMU3'', ''SMU4'', ''VMU1'', ''VMU2'', ''VSU1'', ''VSU2'',
                  ''VAR1'', ''VAR2'', ''VARD''}"
  shows "configure setattr (Agilent4156_init attr) (Document (JObj doc)) a
           = (Inl KeyError, disable_all (Agilent4156_init attr) a)
         \<and> trace (disable_all (Agilent4156_init attr) a) = trace a @
             [Write '':PAGE:CHAN:SMU1:DIS'', CheckErrors, Write '':PAGE:CHAN:SMU2:DIS'', CheckErrors,
              Write '':PAGE:CHAN:SMU3:DIS'', CheckErrors, Write '':PAGE:CHAN:SMU4:DIS'', CheckErrors,
              Write '':PAGE:CHAN:VMU1:DIS'', CheckErrors, Write '':PAGE:CHAN:VMU2:DIS'', CheckErrors]"
  by (simp add: configure_def translate_unknown [OF assms(1) obj_dict_unknown [OF assms(2)]]
      disable_all_trace)

text \<open>
  The witness: SMU5 is no slot. With it in the document, after the known slot SMU1, the
  marking setter is never called; without it, the setter is called for SMU1.
\<close>

theorem configure_unknown_slot_witness:
  "fst (configure marking (Agilent4156_init None)
          (Document (JObj [(''SMU1'', JObj [(''channel_mode'', JStr ''V'')]),
                           (''SMU5'', JObj [(''channel_mode'', JStr ''V'')])])) idle)
     = Inl KeyError
   \<and> written (snd (configure marking (Agilent4156_init None)
          (Document (JObj [(''SMU1'', JObj [(''channel_mode'', JStr ''V'')]),
                           (''SMU5'', JObj [(''channel_mode'', JStr ''V'')])])) idle))
     = ['':PAGE:CHAN:SMU1:DIS'', '':PAGE:CHAN:SMU2:DIS'', '':PAGE:CHAN:SMU3:DIS'',
        '':PAGE:CHAN:SMU4:DIS'', '':PAGE:CHAN:VMU1:DIS'', '':PAGE:CHAN:VMU2:DIS'']
   \<and> written (snd (configure marking (Agilent4156_init None)
          (Document (JObj [(''SMU1'', JObj [(''channel_mode'', JStr ''V'')])])) idle))
     = ['':PAGE:CHAN:SMU1:DIS'', '':PAGE:CHAN:SMU2:DIS'', '':PAGE:CHAN:SMU3:DIS'',
        '':PAGE:CHAN:SMU4:DIS'', '':PAGE:CHAN:VMU1:DIS'', '':PAGE:CHAN:VMU2:DIS'',
        ''SET channel_mode'']"
proof -
  have known: "written (snd (configure marking (Agilent4156_init None)
          (Document (JObj [(''SMU1'', JObj [(''channel_mode'', JStr ''V'')])])) idle))
     = ['':PAGE:CHAN:SMU1:DIS'', '':PAGE:CHAN:SMU2:DIS'', '':PAGE:CHAN:SMU3:DIS'',
        '':PAGE:CHAN:SMU4:DIS'', '':PAGE:CHAN:VMU1:DIS'', '':PAGE:CHAN:VMU2:DIS'',
        ''SET channel_mode'']"
    by (simp add: configure_def obj_dict_def disable_all_trace marking_def adapter_write_def
        written_def idle_def instrument_def)
  have "(''SMU5'', JObj [(''channel_mode'', JStr ''V'')])
          \<in> set [(''SMU1'', JObj [(''channel_mode'', JStr ''V'')]),
                 (''SMU5'', JObj [(''channel_mode'', JStr ''V'')])]"
    by simp
  from configure_unknown_slot [OF this, of marking None idle] known show ?thesis
    by (simp add: written_def idle_def instrument_def)
qed

end
